theory Spec2Isabelle
  imports Complex_Main
begin

section \<open>The metrics engine of the data quality impact calculator\<close>

text \<open>
  The repository is one Streamlit script, \<^verbatim>\<open>data_quality_calculator.py\<close>. Its only
  computation is \<^verbatim>\<open>calculate_metrics()\<close>, a function without parameters that reads the
  sidebar widgets' values as module globals and returns a dictionary of metrics.

  Conventions of the embedding:
  \<^item> the globals the function reads are the fields of the record \<open>experiment_input\<close>,
    under the names the script gives them;
  \<^item> a Python \<^verbatim>\<open>float\<close> is a \<open>real\<close>, a Python \<^verbatim>\<open>int\<close> an \<open>int\<close>: rounding and
    overflow of binary floating point are not modelled, every other step is. The
    theorems below are therefore kept to statements that rounding does not change: a
    field is compared with the formula the source computes it by, never with a quantity
    computed along another path, and a result is shown to be produced under a condition
    that holds with a margin;
  \<^item> a true division of two Python floats raises \<^verbatim>\<open>ZeroDivisionError\<close> when the divisor
    is zero: each such division of the source is a branch returning \<open>Inl\<close>;
  \<^item> a value that went through \<^verbatim>\<open>np.sqrt\<close> is a \<^verbatim>\<open>numpy.float64\<close>, whose arithmetic
    never raises: a negative radicand gives NaN, a zero divisor gives an infinity or
    NaN, and every comparison with NaN is false. Such values are of type \<open>npfloat\<close>;
  \<^item> \<^verbatim>\<open>scipy.stats.norm.ppf\<close> and \<^verbatim>\<open>scipy.stats.norm.cdf\<close> are library code outside
    the repository: \<open>calculate_metrics\<close> takes them as its first two arguments.
\<close>

subsection \<open>Exceptions and numpy floats\<close>

datatype py_exception = ZeroDivisionError

datatype npfloat = Fin real | PInf | NInf | NaN

fun np_neg :: "npfloat \<Rightarrow> npfloat" where
  "np_neg (Fin a) = Fin (- a)"
| "np_neg PInf = NInf"
| "np_neg NInf = PInf"
| "np_neg NaN = NaN"

fun np_add :: "npfloat \<Rightarrow> npfloat \<Rightarrow> npfloat" where
  "np_add (Fin a) (Fin b) = Fin (a + b)"
| "np_add NaN y = NaN"
| "np_add x NaN = NaN"
| "np_add PInf NInf = NaN"
| "np_add NInf PInf = NaN"
| "np_add PInf y = PInf"
| "np_add NInf y = NInf"
| "np_add (Fin a) y = y"

definition np_sub :: "npfloat \<Rightarrow> npfloat \<Rightarrow> npfloat" where
  "np_sub x y = np_add x (np_neg y)"

fun np_mul :: "npfloat \<Rightarrow> npfloat \<Rightarrow> npfloat" where
  "np_mul (Fin a) (Fin b) = Fin (a * b)"
| "np_mul NaN y = NaN"
| "np_mul x NaN = NaN"
| "np_mul (Fin a) PInf = (if a = 0 then NaN else if 0 < a then PInf else NInf)"
| "np_mul (Fin a) NInf = (if a = 0 then NaN else if 0 < a then NInf else PInf)"
| "np_mul PInf (Fin b) = (if b = 0 then NaN else if 0 < b then PInf else NInf)"
| "np_mul NInf (Fin b) = (if b = 0 then NaN else if 0 < b then NInf else PInf)"
| "np_mul PInf PInf = PInf"
| "np_mul PInf NInf = NInf"
| "np_mul NInf PInf = NInf"
| "np_mul NInf NInf = PInf"

text \<open>
  Division of numpy floats. The sign of a zero is not modelled: a zero divisor counts
  as \<open>+0.0\<close>, which is what the one variable divisor of the source, a square root of a
  sum of squares, can be.
\<close>

fun np_div :: "npfloat \<Rightarrow> npfloat \<Rightarrow> npfloat" where
  "np_div (Fin a) (Fin b) =
     (if b = 0 then (if a = 0 then NaN else if 0 < a then PInf else NInf) else Fin (a / b))"
| "np_div NaN y = NaN"
| "np_div x NaN = NaN"
| "np_div (Fin a) y = Fin 0"
| "np_div PInf (Fin b) = (if 0 \<le> b then PInf else NInf)"
| "np_div NInf (Fin b) = (if 0 \<le> b then NInf else PInf)"
| "np_div x y = NaN"

fun np_sqrt :: "npfloat \<Rightarrow> npfloat" where
  "np_sqrt (Fin a) = (if a < 0 then NaN else Fin (sqrt a))"
| "np_sqrt PInf = PInf"
| "np_sqrt NInf = NaN"
| "np_sqrt NaN = NaN"

text \<open>\<^verbatim>\<open>x**2\<close> on a numpy float.\<close>

definition np_square :: "npfloat \<Rightarrow> npfloat" where
  "np_square x = np_mul x x"

fun np_lt :: "npfloat \<Rightarrow> npfloat \<Rightarrow> bool" where
  "np_lt (Fin a) (Fin b) = (a < b)"
| "np_lt NaN y = False"
| "np_lt x NaN = False"
| "np_lt x NInf = False"
| "np_lt PInf y = False"
| "np_lt x y = True"

definition np_gt :: "npfloat \<Rightarrow> npfloat \<Rightarrow> bool" where
  "np_gt x y = np_lt y x"

subsection \<open>The inputs and the result\<close>

text \<open>
  The module globals \<^verbatim>\<open>calculate_metrics\<close> reads (lines 88--116 of the script):
  \<^verbatim>\<open>sample_size\<close> comes from a \<^verbatim>\<open>number_input\<close> with integer bounds and is an \<^verbatim>\<open>int\<close>,
  \<^verbatim>\<open>confidence\<close> from a \<^verbatim>\<open>selectbox\<close> over \<^verbatim>\<open>[90, 95, 99]\<close>, the rest are floats.
\<close>

record experiment_input =
  sample_size :: int
  baseline_conversion :: real
  expected_lift :: real
  confidence :: int
  control_event_loss :: real
  control_user_id_error :: real
  control_partial_data :: real
  variation_event_loss :: real
  variation_user_id_error :: real
  variation_partial_data :: real
  segmentation_errors :: real
  timeframe_bias :: real

text \<open>The four columns of the \<^verbatim>\<open>chart_data\<close> data frame; row \<open>i\<close> is the \<open>i\<close>-th sweep point.\<close>

record chart =
  Error_Rate :: "int list"
  True_Lift :: "real list"
  Observed_Lift :: "real list"
  Significant :: "bool list"

text \<open>The dictionary \<^verbatim>\<open>calculate_metrics\<close> returns, one field per key.\<close>

record metrics =
  effective_sample_size :: real
  control_observed_conversion :: real
  variation_observed_conversion :: real
  actual_lift :: real
  bias_risk_score :: real
  stat_power :: npfloat
  false_positive_risk :: real
  false_negative_risk :: real
  detection_threshold :: npfloat
  conclusion :: string
  conclusion_class :: string
  chart_data :: chart
  control_quality_score :: real
  variation_quality_score :: real

subsection \<open>The sweep loop\<close>

text \<open>\<^verbatim>\<open>range(start, stop, step)\<close> for a positive step (the script calls \<^verbatim>\<open>range(0, 21, 2)\<close>).\<close>

function py_range :: "int \<Rightarrow> int \<Rightarrow> int \<Rightarrow> int list" where
  "py_range start stop step =
     (if 0 < step \<and> start < stop then start # py_range (start + step) stop step else [])"
  by pat_completeness auto
termination
  by (relation "measure (\<lambda>(start, stop, step). nat (stop - start))") auto

declare py_range.simps [simp del]

text \<open>
  The \<^verbatim>\<open>for error in error_rates\<close> loop (lines 199--212). The two lists it appends to
  are the accumulators; the division by \<^verbatim>\<open>control_observed_rate\<close> is a division of
  Python floats and raises when that rate is zero, which ends the whole function.
\<close>

fun sweep ::
  "experiment_input \<Rightarrow> npfloat \<Rightarrow> int list \<Rightarrow> real list \<Rightarrow> bool list
     \<Rightarrow> py_exception + (real list \<times> bool list)" where
  "sweep g mde [] observed_lifts significance_flags = Inr (observed_lifts, significance_flags)"
| "sweep g mde (error # rest) observed_lifts significance_flags =
     (let control_error_impact =
            control_event_loss g / 100 + control_user_id_error g / 100
              + (real_of_int error / 100) * (control_partial_data g / 100);
          variation_error_impact =
            variation_event_loss g / 100 + variation_user_id_error g / 100
              + (real_of_int error / 100) * (variation_partial_data g / 100);
          control_observed_rate = baseline_conversion g * (1 - control_error_impact);
          variation_true_rate = baseline_conversion g * (1 + expected_lift g / 100);
          variation_observed_rate = variation_true_rate * (1 - variation_error_impact)
      in if control_observed_rate = 0 then Inl ZeroDivisionError
         else
           let observed_lift = (variation_observed_rate / control_observed_rate - 1) * 100
           in sweep g mde rest (observed_lifts @ [observed_lift])
                (significance_flags @ [np_gt (Fin \<bar>observed_lift\<bar>) mde]))"

subsection \<open>\<^verbatim>\<open>calculate_metrics\<close>\<close>

text \<open>
  Lines 134--236, statement by statement and in the source's order. The three guards
  are the three divisions of Python floats by a variable: by
  \<^verbatim>\<open>control_observed_conversion\<close> (line 146), by \<^verbatim>\<open>control_effective_sample\<close> (line 158)
  and by \<^verbatim>\<open>variation_effective_sample\<close> (line 159). The division by \<^verbatim>\<open>pooled_se\<close>
  (line 164) is a numpy one and does not raise. The function checks no range.
\<close>

definition calculate_metrics ::
  "(real \<Rightarrow> npfloat) \<Rightarrow> (npfloat \<Rightarrow> npfloat) \<Rightarrow> experiment_input
     \<Rightarrow> py_exception + metrics" where
  "calculate_metrics norm_ppf norm_cdf g =
    (let control_effective_sample =
           real_of_int (sample_size g) / 2 * (1 - control_user_id_error g / 100)
             * (1 - control_event_loss g / 100);
         variation_effective_sample =
           real_of_int (sample_size g) / 2 * (1 - variation_user_id_error g / 100)
             * (1 - variation_event_loss g / 100);
         total_effective_sample = control_effective_sample + variation_effective_sample;
         control_observed_conversion =
           baseline_conversion g * (1 - control_partial_data g / 100);
         variation_expected_conversion = baseline_conversion g * (1 + expected_lift g / 100);
         variation_observed_conversion =
           variation_expected_conversion * (1 - variation_partial_data g / 100)
     in if control_observed_conversion = 0 then Inl ZeroDivisionError
     else
     let reported_lift = (variation_observed_conversion / control_observed_conversion - 1) * 100;
         control_quality_score =
           100 - (control_event_loss g + control_user_id_error g + control_partial_data g) / 3;
         variation_quality_score =
           100 - (variation_event_loss g + variation_user_id_error g
                    + variation_partial_data g) / 3;
         quality_difference = \<bar>control_quality_score - variation_quality_score\<bar>;
         alpha = real_of_int (100 - confidence g) / 100;
         z_alpha = norm_ppf (1 - alpha / 2)
     in if control_effective_sample = 0 then Inl ZeroDivisionError
     else
     let se_control =
           np_sqrt (Fin ((control_observed_conversion * (100 - control_observed_conversion))
                           / control_effective_sample))
     in if variation_effective_sample = 0 then Inl ZeroDivisionError
     else
     let se_variation =
           np_sqrt (Fin ((variation_observed_conversion * (100 - variation_observed_conversion))
                           / variation_effective_sample));
         pooled_se = np_sqrt (np_add (np_square se_control) (np_square se_variation));
         expected_effect = expected_lift g / 100 * baseline_conversion g;
         z_score = np_div (Fin expected_effect) pooled_se;
         power = norm_cdf (np_sub z_score z_alpha);
         mde = np_mul (np_mul z_alpha pooled_se) (Fin 2);
         data_quality_impact =
           (variation_event_loss g + variation_user_id_error g + variation_partial_data g)
             - (control_event_loss g + control_user_id_error g + control_partial_data g);
         false_positive_risk =
           (if data_quality_impact < 0 then \<bar>data_quality_impact / 5\<bar> else 0);
         false_negative_risk =
           (if data_quality_impact > 0 then data_quality_impact / 5 else 0);
         (conclusion, conclusion_class) =
           (if reported_lift > 0 \<and> reported_lift < expected_lift g \<and> data_quality_impact > 5
            then (''Likely false negative (true effect is being diluted by data quality issues)'',
                  ''warning'')
            else if reported_lift > expected_lift g \<and> data_quality_impact < - 5
            then (''Potential false positive (observed lift is artificially inflated)'',
                  ''danger'')
            else if np_lt (Fin \<bar>reported_lift\<bar>) mde
            then (''Inconclusive (effect size is below detection threshold)'', ''info'')
            else if np_lt (Fin \<bar>reported_lift - expected_lift g\<bar>) (np_div mde (Fin 2))
            then (''Likely valid result (observed lift matches expected)'', ''success'')
            else (''Requires investigation (unexpected results)'', ''warning''));
         error_rates = py_range 0 21 2;
         true_lifts = replicate (length error_rates) (expected_lift g)
     in case sweep g mde error_rates [] [] of
          Inl e \<Rightarrow> Inl e
        | Inr (observed_lifts, significance_flags) \<Rightarrow>
            Inr \<lparr> effective_sample_size = total_effective_sample,
                  control_observed_conversion = control_observed_conversion,
                  variation_observed_conversion = variation_observed_conversion,
                  actual_lift = reported_lift,
                  bias_risk_score = quality_difference,
                  stat_power = np_mul power (Fin 100),
                  false_positive_risk = false_positive_risk,
                  false_negative_risk = false_negative_risk,
                  detection_threshold = mde,
                  conclusion = conclusion,
                  conclusion_class = conclusion_class,
                  chart_data = \<lparr> Error_Rate = error_rates, True_Lift = true_lifts,
                                 Observed_Lift = observed_lifts,
                                 Significant = significance_flags \<rparr>,
                  control_quality_score = control_quality_score,
                  variation_quality_score = variation_quality_score \<rparr>)"

subsection \<open>The quantities of the specification\<close>

text \<open>
  The definitions below name the quantities the specification speaks of, each written as
  the specification gives it. They are not part of the model: \<open>calculate_metrics_flat\<close>
  and \<open>calculate_metrics_eq\<close> prove that the model computes exactly these.
\<close>

definition control_effective_sample :: "experiment_input \<Rightarrow> real" where
  "control_effective_sample g =
     real_of_int (sample_size g) / 2 * (1 - control_user_id_error g / 100)
       * (1 - control_event_loss g / 100)"

definition variation_effective_sample :: "experiment_input \<Rightarrow> real" where
  "variation_effective_sample g =
     real_of_int (sample_size g) / 2 * (1 - variation_user_id_error g / 100)
       * (1 - variation_event_loss g / 100)"

definition control_conversion :: "experiment_input \<Rightarrow> real" where
  "control_conversion g = baseline_conversion g * (1 - control_partial_data g / 100)"

definition variation_conversion :: "experiment_input \<Rightarrow> real" where
  "variation_conversion g =
     baseline_conversion g * (1 + expected_lift g / 100) * (1 - variation_partial_data g / 100)"

definition reported_lift :: "experiment_input \<Rightarrow> real" where
  "reported_lift g = (variation_conversion g / control_conversion g - 1) * 100"

text \<open>Step 6: the variation group's total error minus the control group's.\<close>

definition quality_delta :: "experiment_input \<Rightarrow> real" where
  "quality_delta g =
     (variation_event_loss g + variation_user_id_error g + variation_partial_data g)
       - (control_event_loss g + control_user_id_error g + control_partial_data g)"

text \<open>Step 5: the pooled standard error, the critical value and the detection threshold.\<close>

definition pooled_se :: "experiment_input \<Rightarrow> npfloat" where
  "pooled_se g =
     np_sqrt (np_add
       (np_square (np_sqrt (Fin ((control_conversion g * (100 - control_conversion g))
                                  / control_effective_sample g))))
       (np_square (np_sqrt (Fin ((variation_conversion g * (100 - variation_conversion g))
                                  / variation_effective_sample g)))))"

definition z_alpha :: "(real \<Rightarrow> npfloat) \<Rightarrow> experiment_input \<Rightarrow> npfloat" where
  "z_alpha norm_ppf g = norm_ppf (1 - (real_of_int (100 - confidence g) / 100) / 2)"

definition mde :: "(real \<Rightarrow> npfloat) \<Rightarrow> experiment_input \<Rightarrow> npfloat" where
  "mde norm_ppf g = np_mul (np_mul (z_alpha norm_ppf g) (pooled_se g)) (Fin 2)"

text \<open>Step 7: the five rules in their priority order, on a lift, the expected lift, the
  quality delta and a threshold.\<close>

definition classify :: "real \<Rightarrow> real \<Rightarrow> real \<Rightarrow> npfloat \<Rightarrow> string \<times> string" where
  "classify lift expected delta threshold =
     (if lift > 0 \<and> lift < expected \<and> delta > 5
      then (''Likely false negative (true effect is being diluted by data quality issues)'',
            ''warning'')
      else if lift > expected \<and> delta < - 5
      then (''Potential false positive (observed lift is artificially inflated)'',
            ''danger'')
      else if np_lt (Fin \<bar>lift\<bar>) threshold
      then (''Inconclusive (effect size is below detection threshold)'', ''info'')
      else if np_lt (Fin \<bar>lift - expected\<bar>) (np_div threshold (Fin 2))
      then (''Likely valid result (observed lift matches expected)'', ''success'')
      else (''Requires investigation (unexpected results)'', ''warning''))"


text \<open>Step 8: the impact of an error rate on each group, and the lift observed at it.\<close>

definition control_impact :: "experiment_input \<Rightarrow> int \<Rightarrow> real" where
  "control_impact g e =
     control_event_loss g / 100 + control_user_id_error g / 100
       + (real_of_int e / 100) * (control_partial_data g / 100)"

definition variation_impact :: "experiment_input \<Rightarrow> int \<Rightarrow> real" where
  "variation_impact g e =
     variation_event_loss g / 100 + variation_user_id_error g / 100
       + (real_of_int e / 100) * (variation_partial_data g / 100)"

definition sweep_control_rate :: "experiment_input \<Rightarrow> int \<Rightarrow> real" where
  "sweep_control_rate g e = baseline_conversion g * (1 - control_impact g e)"

definition sweep_observed_lift :: "experiment_input \<Rightarrow> int \<Rightarrow> real" where
  "sweep_observed_lift g e =
     ((baseline_conversion g * (1 + expected_lift g / 100) * (1 - variation_impact g e))
        / sweep_control_rate g e - 1) * 100"

text \<open>The divisors of Python floats that are zero: the cases in which the function raises.\<close>

definition zero_denominator :: "experiment_input \<Rightarrow> bool" where
  "zero_denominator g \<longleftrightarrow>
     control_conversion g = 0 \<or> control_effective_sample g = 0
     \<or> variation_effective_sample g = 0
     \<or> (\<exists>e\<in>set (py_range 0 21 2). sweep_control_rate g e = 0)"

text \<open>The dictionary built at the end of the function, from the two lists of the sweep.\<close>

definition assemble ::
  "(real \<Rightarrow> npfloat) \<Rightarrow> (npfloat \<Rightarrow> npfloat) \<Rightarrow> experiment_input
     \<Rightarrow> real list \<Rightarrow> bool list \<Rightarrow> metrics" where
  "assemble norm_ppf norm_cdf g observed_lifts significance_flags =
     \<lparr> effective_sample_size = control_effective_sample g + variation_effective_sample g,
       control_observed_conversion = control_conversion g,
       variation_observed_conversion = variation_conversion g,
       actual_lift = reported_lift g,
       bias_risk_score =
         \<bar>(100 - (control_event_loss g + control_user_id_error g + control_partial_data g) / 3)
           - (100 - (variation_event_loss g + variation_user_id_error g
                       + variation_partial_data g) / 3)\<bar>,
       stat_power =
         np_mul (norm_cdf (np_sub
                   (np_div (Fin (expected_lift g / 100 * baseline_conversion g)) (pooled_se g))
                   (z_alpha norm_ppf g)))
           (Fin 100),
       false_positive_risk = (if quality_delta g < 0 then \<bar>quality_delta g / 5\<bar> else 0),
       false_negative_risk = (if quality_delta g > 0 then quality_delta g / 5 else 0),
       detection_threshold = mde norm_ppf g,
       conclusion =
         fst (classify (reported_lift g) (expected_lift g) (quality_delta g) (mde norm_ppf g)),
       conclusion_class =
         snd (classify (reported_lift g) (expected_lift g) (quality_delta g) (mde norm_ppf g)),
       chart_data =
         \<lparr> Error_Rate = py_range 0 21 2,
           True_Lift = replicate (length (py_range 0 21 2)) (expected_lift g),
           Observed_Lift = observed_lifts,
           Significant = significance_flags \<rparr>,
       control_quality_score =
         100 - (control_event_loss g + control_user_id_error g + control_partial_data g) / 3,
       variation_quality_score =
         100 - (variation_event_loss g + variation_user_id_error g
                  + variation_partial_data g) / 3 \<rparr>"

definition result_of ::
  "(real \<Rightarrow> npfloat) \<Rightarrow> (npfloat \<Rightarrow> npfloat) \<Rightarrow> experiment_input \<Rightarrow> metrics" where
  "result_of norm_ppf norm_cdf g =
     assemble norm_ppf norm_cdf g (map (sweep_observed_lift g) (py_range 0 21 2))
       (map (\<lambda>e. np_gt (Fin \<bar>sweep_observed_lift g e\<bar>) (mde norm_ppf g)) (py_range 0 21 2))"



subsection \<open>Concrete library functions and inputs\<close>

text \<open>
  The theorems hold for every \<open>norm_ppf\<close> and \<open>norm_cdf\<close>. Where a closed statement needs
  an instance, the two functions below are used.
\<close>

text \<open>
  Modelled from the spec: \<^verbatim>\<open>scipy.stats.norm.ppf\<close> is not in the repository; step 5 of
  the specification gives its values at the three confidence levels the select box
  offers (1.645, 1.960, 2.576). Any other argument yields NaN here.
\<close>

definition critical_value_table :: "real \<Rightarrow> npfloat" where
  "critical_value_table p =
     (if p = 19 / 20 then Fin (1645 / 1000)
      else if p = 39 / 40 then Fin (196 / 100)
      else if p = 199 / 200 then Fin (2576 / 1000)
      else NaN)"

text \<open>
  Modelled from the spec: \<^verbatim>\<open>scipy.stats.norm.cdf\<close> is not in the repository; the
  specification calls it the CDF of the standard normal distribution, given here by its
  power series around zero.
\<close>

definition std_normal_cdf :: "npfloat \<Rightarrow> npfloat" where
  "std_normal_cdf x =
     (case x of
        Fin t \<Rightarrow>
          Fin (1 / 2 + (\<Sum>n. (- 1) ^ n * t ^ (2 * n + 1) / (fact n * 2 ^ n * real (2 * n + 1)))
                         / sqrt (2 * pi))
      | PInf \<Rightarrow> Fin 1
      | NInf \<Rightarrow> Fin 0
      | NaN \<Rightarrow> NaN)"

text \<open>Scenario A of the specification: the widgets' default values.\<close>

definition scenario_A :: experiment_input where
  "scenario_A =
     \<lparr> sample_size = 10000, baseline_conversion = 10, expected_lift = 5, confidence = 95,
       control_event_loss = 2, control_user_id_error = 1, control_partial_data = 3,
       variation_event_loss = 5, variation_user_id_error = 3, variation_partial_data = 7,
       segmentation_errors = 4, timeframe_bias = 2 \<rparr>"












section \<open>The model computes the quantities of the specification\<close>

lemma py_range_0_21_2: "py_range 0 21 2 = [0, 2, 4, 6, 8, 10, 12, 14, 16, 18, 20]"
  by (simp add: py_range.simps)

lemma sweep_Cons:
  "sweep g m (e # es) ols sfs =
     (if sweep_control_rate g e = 0 then Inl ZeroDivisionError
      else sweep g m es (ols @ [sweep_observed_lift g e])
             (sfs @ [np_gt (Fin \<bar>sweep_observed_lift g e\<bar>) m]))"
  unfolding sweep_control_rate_def sweep_observed_lift_def control_impact_def
    variation_impact_def
  by (simp only: sweep.simps Let_def)

lemma sweep_eq:
  "sweep g m es ols sfs =
     (if \<exists>e\<in>set es. sweep_control_rate g e = 0 then Inl ZeroDivisionError
      else Inr (ols @ map (sweep_observed_lift g) es,
                sfs @ map (\<lambda>e. np_gt (Fin \<bar>sweep_observed_lift g e\<bar>) m) es))"
proof (induction es arbitrary: ols sfs)
  case Nil
  show ?case by simp
next
  case (Cons e es)
  show ?case
    unfolding sweep_Cons Cons.IH by simp
qed

lemma calculate_metrics_flat:
  "calculate_metrics norm_ppf norm_cdf g =
     (if control_conversion g = 0 then Inl ZeroDivisionError
      else if control_effective_sample g = 0 then Inl ZeroDivisionError
      else if variation_effective_sample g = 0 then Inl ZeroDivisionError
      else case sweep g (mde norm_ppf g) (py_range 0 21 2) [] [] of
             Inl e \<Rightarrow> Inl e
           | Inr (observed_lifts, significance_flags) \<Rightarrow>
               Inr (assemble norm_ppf norm_cdf g observed_lifts significance_flags))"
  unfolding calculate_metrics_def assemble_def classify_def mde_def z_alpha_def pooled_se_def
    reported_lift_def quality_delta_def control_conversion_def variation_conversion_def
    control_effective_sample_def variation_effective_sample_def Let_def case_prod_beta
  by (rule refl)

lemma calculate_metrics_eq:
  "calculate_metrics norm_ppf norm_cdf g =
     (if zero_denominator g then Inl ZeroDivisionError
      else Inr (result_of norm_ppf norm_cdf g))"
  unfolding calculate_metrics_flat sweep_eq zero_denominator_def result_of_def
  by simp


lemma scenario_A_sel:
  "sample_size scenario_A = 10000" "baseline_conversion scenario_A = 10"
  "expected_lift scenario_A = 5" "confidence scenario_A = 95"
  "control_event_loss scenario_A = 2" "control_user_id_error scenario_A = 1"
  "control_partial_data scenario_A = 3" "variation_event_loss scenario_A = 5"
  "variation_user_id_error scenario_A = 3" "variation_partial_data scenario_A = 7"
  "segmentation_errors scenario_A = 4" "timeframe_bias scenario_A = 2"
  by (simp_all add: scenario_A_def)

lemma zero_denominator_scenario_A: "\<not> zero_denominator scenario_A"
  unfolding zero_denominator_def py_range_0_21_2
  by (simp add: scenario_A_sel control_conversion_def control_effective_sample_def
      variation_effective_sample_def sweep_control_rate_def control_impact_def)


lemma returns_scenario_A:
  "calculate_metrics norm_ppf norm_cdf scenario_A = Inr (result_of norm_ppf norm_cdf scenario_A)"
  by (simp add: calculate_metrics_eq zero_denominator_scenario_A)









lemma zero_denominator_ignores_reserved:
  "zero_denominator (g\<lparr>segmentation_errors := s, timeframe_bias := t\<rparr>) = zero_denominator g"
  by (simp add: zero_denominator_def control_conversion_def control_effective_sample_def
      variation_effective_sample_def sweep_control_rate_def control_impact_def)

lemma result_of_ignores_reserved:
  "result_of norm_ppf norm_cdf (g\<lparr>segmentation_errors := s, timeframe_bias := t\<rparr>)
     = result_of norm_ppf norm_cdf g"
  by (simp add: result_of_def assemble_def mde_def z_alpha_def pooled_se_def
      reported_lift_def quality_delta_def control_conversion_def variation_conversion_def
      control_effective_sample_def variation_effective_sample_def sweep_observed_lift_def
      sweep_control_rate_def control_impact_def variation_impact_def)









































section \<open>The claims\<close>

subsection \<open>Steps 1 to 3: effective sample, observed conversions, reported lift\<close>




subsection \<open>Step 6: the decision risk heuristics\<close>




subsection \<open>Bounds on the effective sample and the quality scores\<close>



subsection \<open>The reserved inputs\<close>

text \<open>
  Claim C9. \<^verbatim>\<open>segmentation_errors\<close> and \<^verbatim>\<open>timeframe_bias\<close> influence nothing: two inputs
  that differ in these two fields only have the same outcome, the same result or the
  same exception. The function is a function of its input, so equal inputs give equal
  outcomes.
\<close>

theorem reserved_inputs_are_inert:
  "calculate_metrics norm_ppf norm_cdf (g\<lparr>segmentation_errors := s, timeframe_bias := t\<rparr>)
     = calculate_metrics norm_ppf norm_cdf g"
  unfolding calculate_metrics_eq zero_denominator_ignores_reserved result_of_ignores_reserved
  by (rule refl)

theorem reserved_inputs_are_inert_witness:
  "calculate_metrics critical_value_table std_normal_cdf
     (scenario_A\<lparr>segmentation_errors := 0, timeframe_bias := 50\<rparr>)
     = Inr (result_of critical_value_table std_normal_cdf scenario_A)"
  using reserved_inputs_are_inert
    [where norm_ppf = critical_value_table and norm_cdf = std_normal_cdf
       and g = scenario_A and s = 0 and t = 50]
    returns_scenario_A [of critical_value_table std_normal_cdf]
  by simp

subsection \<open>Step 7: the conclusion\<close>




subsection \<open>Step 8: the sweep curve\<close>




subsection \<open>Scenario A\<close>



subsection \<open>The sweep at error rate 0 and the reported lift\<close>




subsection \<open>Errors\<close>




end
